theory Spec2Isabelle
  imports Main "HOL-Library.Word"
begin

section \<open>The stock exchange server of Homework 8 and Homework 9\<close>

text \<open>
  The development follows \<^verbatim>\<open>Homework/homework8\<close>: \<^verbatim>\<open>Stock.h\<close>,
  \<^verbatim>\<open>zarembmj_homework8.cpp\<close>, \<^verbatim>\<open>zarembmj_homework9.cpp\<close> and
  \<^verbatim>\<open>raodm_homework8.cpp\<close>. The shared \<^verbatim>\<open>sm::stockMap\<close> is passed explicitly
  and returned updated. A call that parks its thread on a condition variable has the
  outcome \<open>Blocked\<close>; a call that leaves through a C++ exception has the outcome
  \<open>Raised\<close>.
\<close>

subsection \<open>Stock.h\<close>

text \<open>
  \<^verbatim>\<open>class Stock { std::string name; unsigned int balance; std::mutex mutex;
  std::condition_variable condVar; }\<close>. The mutex and the condition variable carry no
  data: what they do is the \<open>Blocked\<close> outcome of \<open>updateBalance\<close> below.
\<close>

record Stock =
  name :: string
  balance :: "32 word"

type_synonym stockMap = "string \<rightharpoonup> Stock"

datatype exn = out_of_range | invalid_argument

datatype 'a result = Returned 'a | Blocked | Raised exn

subsection \<open>Library operations used by the server\<close>

text \<open>\<^verbatim>\<open>std::to_string(unsigned)\<close> and \<^verbatim>\<open>operator<<(unsigned)\<close>: decimal digits,
  most significant first, no leading zero.\<close>

definition digit_char :: "nat \<Rightarrow> char" where
  "digit_char d = ''0123456789'' ! d"

function decimal :: "nat \<Rightarrow> string" where
  "decimal n = (if n < 10 then [digit_char n] else decimal (n div 10) @ [digit_char (n mod 10)])"
  by pat_completeness auto
termination
  by (relation "measure id") auto

declare decimal.simps [simp del]

definition to_string :: "32 word \<Rightarrow> string" where
  "to_string w = decimal (unat w)"

text \<open>\<^verbatim>\<open>sm::stockMap[key]\<close>: a reference to the entry, which is inserted
  value-initialised (empty name, balance 0) when the key is absent.\<close>

definition subscript :: "stockMap \<Rightarrow> string \<Rightarrow> Stock" where
  "subscript sm key = (case sm key of None \<Rightarrow> \<lparr>name = [], balance = 0\<rparr> | Some st \<Rightarrow> st)"

subsection \<open>zarembmj\_homework8.cpp: the transaction processor\<close>

text \<open>\<^verbatim>\<open>createStock\<close>, lines 55 to 66: a lookup, then two assignments through
  \<^verbatim>\<open>operator[]\<close>.\<close>

definition createStock :: "string \<Rightarrow> 32 word \<Rightarrow> stockMap \<Rightarrow> string \<times> stockMap" where
  "createStock stock bal sm =
     (if sm stock = None then
        (let sm1 = sm(stock \<mapsto> (subscript sm stock)\<lparr>name := stock\<rparr>);
             sm2 = sm1(stock \<mapsto> (subscript sm1 stock)\<lparr>balance := bal\<rparr>)
         in (''Stock '' @ stock @ '' created with balance = '' @ to_string bal, sm2))
      else (''Stock '' @ stock @ '' already exists'', sm))"

text \<open>\<^verbatim>\<open>balanceStatus\<close>, lines 77 to 87. \<^verbatim>\<open>stockMap.at\<close> throws
  \<^verbatim>\<open>std::out_of_range\<close> on an absent key.\<close>

definition balanceStatus :: "string \<Rightarrow> stockMap \<Rightarrow> string result" where
  "balanceStatus stock sm =
     (case sm stock of
        None \<Rightarrow> Raised out_of_range
      | Some st \<Rightarrow> Returned (''Balance for stock '' @ stock @ '' = '' @ to_string (balance st)))"

text \<open>\<^verbatim>\<open>updateBalance\<close>, lines 102 to 125. Under the stock's mutex: "sell" adds
  (unsigned 32-bit addition); anything else waits on the condition variable for
  \<^verbatim>\<open>stock.balance >= trades\<close> and then subtracts. The wait is the outcome
  \<open>Blocked\<close>: the thread is parked and the store is as it was.\<close>

definition updateBalance :: "string \<Rightarrow> string \<Rightarrow> 32 word \<Rightarrow> stockMap \<Rightarrow> (string \<times> stockMap) result" where
  "updateBalance tr nm trades sm =
     (case sm nm of
        None \<Rightarrow> Raised out_of_range
      | Some stock \<Rightarrow>
          if tr = ''sell'' then
            Returned (''Stock '' @ nm @ [CHR 39] @ ''s balance updated'',
                      sm(nm \<mapsto> stock\<lparr>balance := balance stock + trades\<rparr>))
          else if balance stock \<ge> trades then
            Returned (''Stock '' @ nm @ [CHR 39] @ ''s balance updated'',
                      sm(nm \<mapsto> stock\<lparr>balance := balance stock - trades\<rparr>))
          else Blocked)"

text \<open>\<^verbatim>\<open>processTrans\<close>, lines 140 to 168 (the same text is lines 148 to 176 of
  \<^verbatim>\<open>zarembmj_homework9.cpp\<close>).\<close>

definition processTrans :: "string \<Rightarrow> string \<Rightarrow> 32 word \<Rightarrow> stockMap \<Rightarrow> (string \<times> stockMap) result" where
  "processTrans tr stock trades sm =
     (if tr = ''reset'' then Returned (''Stocks reset'', Map.empty)
      else if tr = ''create'' then Returned (createStock stock trades sm)
      else if sm stock = None then Returned (''Stock not found'', sm)
      else if tr = ''buy'' \<or> tr = ''sell'' then updateBalance tr stock trades sm
      else if tr = ''status'' then
        (case balanceStatus stock sm of
           Returned output \<Rightarrow> Returned (output, sm)
         | Blocked \<Rightarrow> Blocked
         | Raised e \<Rightarrow> Raised e)
      else Returned (''Invalid request'', sm))"

subsection \<open>raodm\_homework8.cpp: the transaction processor\<close>

text \<open>\<^verbatim>\<open>checkCreate\<close> (lines 82 to 92), \<^verbatim>\<open>getStatus\<close> (104 to 114) and
  \<^verbatim>\<open>updateBalance\<close> (130 to 158) of this file.\<close>

definition checkCreate :: "string \<Rightarrow> 32 word \<Rightarrow> stockMap \<Rightarrow> string \<times> stockMap" where
  "checkCreate stock bal sm =
     (if sm stock = None then
        (let sm1 = sm(stock \<mapsto> (subscript sm stock)\<lparr>name := stock\<rparr>);
             sm2 = sm1(stock \<mapsto> (subscript sm1 stock)\<lparr>balance := bal\<rparr>)
         in (''Stock '' @ stock @ '' created with balance = '' @ to_string bal, sm2))
      else (''Stock '' @ stock @ '' already exists'', sm))"

definition getStatus :: "string \<Rightarrow> stockMap \<Rightarrow> string result" where
  "getStatus stock sm =
     (case sm stock of
        None \<Rightarrow> Raised out_of_range
      | Some st \<Rightarrow> Returned (''Balance for stock '' @ stock @ '' = '' @ to_string (balance st)))"

definition updateBalance_raodm :: "string \<Rightarrow> string \<Rightarrow> 32 word \<Rightarrow> stockMap \<Rightarrow> (string \<times> stockMap) result" where
  "updateBalance_raodm tr nm trade sm =
     (case sm nm of
        None \<Rightarrow> Raised out_of_range
      | Some stock \<Rightarrow>
          if tr = ''sell'' then
            Returned (''Stock '' @ nm @ [CHR 39] @ ''s balance updated'',
                      sm(nm \<mapsto> stock\<lparr>balance := balance stock + trade\<rparr>))
          else if balance stock \<ge> trade then
            Returned (''Stock '' @ nm @ [CHR 39] @ ''s balance updated'',
                      sm(nm \<mapsto> stock\<lparr>balance := balance stock - trade\<rparr>))
          else Blocked)"

text \<open>\<^verbatim>\<open>processTrans\<close>, lines 173 to 196: there is no "reset" branch.\<close>

definition processTrans_raodm :: "string \<Rightarrow> string \<Rightarrow> 32 word \<Rightarrow> stockMap \<Rightarrow> (string \<times> stockMap) result" where
  "processTrans_raodm tr stock trade sm =
     (if tr = ''create'' then Returned (checkCreate stock trade sm)
      else if sm stock = None then Returned (''Stock not found'', sm)
      else if tr = ''buy'' \<or> tr = ''sell'' then updateBalance_raodm tr stock trade sm
      else if tr = ''status'' then
        (case getStatus stock sm of
           Returned msg \<Rightarrow> Returned (msg, sm)
         | Blocked \<Rightarrow> Blocked
         | Raised e \<Rightarrow> Raised e)
      else Returned (''Invalid request'', sm))"

subsection \<open>Library operations used by the connection handler\<close>

text \<open>\<^verbatim>\<open>std::isspace\<close> in the "C" locale: space, \<^verbatim>\<open>\t \n \v \f \r\<close>.\<close>

definition isspace :: "char \<Rightarrow> bool" where
  "isspace c = (c = CHR '' '' \<or> c = CHR 9 \<or> c = CHR 10 \<or> c = CHR 11 \<or> c = CHR 12 \<or> c = CHR 13)"

definition isdigit :: "char \<Rightarrow> bool" where
  "isdigit c = (48 \<le> (of_char c :: nat) \<and> (of_char c :: nat) \<le> 57)"

definition digit_val :: "char \<Rightarrow> nat" where
  "digit_val c = (of_char c :: nat) - 48"

definition digits_value :: "string \<Rightarrow> nat" where
  "digits_value ds = foldl (\<lambda>a c. 10 * a + digit_val c) 0 ds"

text \<open>\<^verbatim>\<open>std::replace(first, last, old, new)\<close>.\<close>

definition replace :: "char \<Rightarrow> char \<Rightarrow> string \<Rightarrow> string" where
  "replace old new s = map (\<lambda>c. if c = old then new else c) s"

text \<open>
  A \<^verbatim>\<open>std::istringstream\<close>: the characters not yet read and the fail bit. Once the
  stream has failed an extraction leaves its target as it was.
\<close>

record istringstream =
  rest :: string
  failed :: bool

text \<open>\<^verbatim>\<open>is >> str\<close> for a \<^verbatim>\<open>std::string\<close>: skip white space, then read up to the
  next white space; at the end of the input the stream fails and \<open>str\<close> is untouched.\<close>

definition get_string :: "string \<Rightarrow> istringstream \<Rightarrow> string \<times> istringstream" where
  "get_string str is =
     (if failed is then (str, is)
      else let s = dropWhile isspace (rest is) in
        if s = [] then (str, \<lparr>rest = [], failed = True\<rparr>)
        else (takeWhile (\<lambda>c. \<not> isspace c) s,
              \<lparr>rest = dropWhile (\<lambda>c. \<not> isspace c) s, failed = False\<rparr>))"

text \<open>
  The number that \<^verbatim>\<open>num_get\<close> reads for an \<^verbatim>\<open>unsigned int\<close> from the start of
  \<open>s\<close>: an optional sign and decimal digits. No digit gives 0, a value above
  \<^verbatim>\<open>UINT_MAX\<close> gives \<^verbatim>\<open>UINT_MAX\<close> (both set the fail bit), a minus sign negates
  modulo \<open>2 ^ 32\<close>.
\<close>

definition leading_unsigned :: "string \<Rightarrow> 32 word \<times> bool" where
  "leading_unsigned s =
     (let negative = (s \<noteq> [] \<and> hd s = CHR ''-'');
          s1 = (if s \<noteq> [] \<and> (hd s = CHR ''-'' \<or> hd s = CHR ''+'') then tl s else s);
          ds = takeWhile isdigit s1
      in if ds = [] then (0, True)
         else if digits_value ds > 4294967295 then (4294967295, True)
         else if negative then (- word_of_nat (digits_value ds), False)
         else (word_of_nat (digits_value ds), False))"

text \<open>\<^verbatim>\<open>is >> amount\<close> for an \<^verbatim>\<open>unsigned int\<close>. The server reads nothing after the
  amount, so the characters left in the stream are not kept.\<close>

definition get_unsigned :: "32 word \<Rightarrow> istringstream \<Rightarrow> 32 word \<times> istringstream" where
  "get_unsigned v is =
     (if failed is then (v, is)
      else let s = dropWhile isspace (rest is) in
        if s = [] then (v, \<lparr>rest = [], failed = True\<rparr>)
        else (fst (leading_unsigned s), \<lparr>rest = [], failed = snd (leading_unsigned s)\<rparr>))"

text \<open>
  \<^verbatim>\<open>std::stoi(str, nullptr, 16)\<close>: white space, an optional sign, an optional
  \<^verbatim>\<open>0x\<close> that a hexadecimal digit follows, then hexadecimal digits.
  \<^verbatim>\<open>std::invalid_argument\<close> when there is no digit, \<^verbatim>\<open>std::out_of_range\<close> when
  the value does not fit an \<^verbatim>\<open>int\<close>.
\<close>

definition isxdigit :: "char \<Rightarrow> bool" where
  "isxdigit c = (isdigit c \<or> (97 \<le> (of_char c :: nat) \<and> (of_char c :: nat) \<le> 102)
                  \<or> (65 \<le> (of_char c :: nat) \<and> (of_char c :: nat) \<le> 70))"

definition xdigit_val :: "char \<Rightarrow> nat" where
  "xdigit_val c = (if isdigit c then (of_char c :: nat) - 48
                   else if 97 \<le> (of_char c :: nat) then (of_char c :: nat) - 87
                   else (of_char c :: nat) - 55)"

definition stoi16 :: "string \<Rightarrow> exn + int" where
  "stoi16 str =
     (let s = dropWhile isspace str;
          negative = (s \<noteq> [] \<and> hd s = CHR ''-'');
          s1 = (if s \<noteq> [] \<and> (hd s = CHR ''-'' \<or> hd s = CHR ''+'') then tl s else s);
          s2 = (if length s1 \<ge> 3 \<and> s1 ! 0 = CHR ''0'' \<and> (s1 ! 1 = CHR ''x'' \<or> s1 ! 1 = CHR ''X'')
                   \<and> isxdigit (s1 ! 2) then drop 2 s1 else s1);
          ds = takeWhile isxdigit s2;
          v = int (foldl (\<lambda>a c. 16 * a + xdigit_val c) 0 ds)
      in if ds = [] then Inl invalid_argument
         else if negative then (if v > 2147483648 then Inl out_of_range else Inr (- v))
         else (if v > 2147483647 then Inl out_of_range else Inr v))"

subsection \<open>main.cpp: url\_decode\<close>

text \<open>
  \<^verbatim>\<open>url_decode\<close>, lines 34 to 50 (copied as lines 308 to 324 of
  \<^verbatim>\<open>zarembmj_homework9.cpp\<close>). The loop walks the string from left to right: a
  \<^verbatim>\<open>+\<close> becomes a space; a \<^verbatim>\<open>%\<close> and the (at most) two characters after it are
  replaced by the character whose code \<^verbatim>\<open>std::stoi\<close> reads from those two; the
  replacement is stepped over by \<^verbatim>\<open>pos++\<close>. The exception of \<^verbatim>\<open>std::stoi\<close> is not
  caught.
\<close>

fun url_decode :: "string \<Rightarrow> exn + string" where
  "url_decode [] = Inr []"
| "url_decode (c # cs) =
     (if c = CHR ''+'' then
        (case url_decode cs of Inl e \<Rightarrow> Inl e | Inr r \<Rightarrow> Inr (CHR '' '' # r))
      else if c = CHR ''%'' then
        (case stoi16 (take 2 cs) of
           Inl e \<Rightarrow> Inl e
         | Inr v \<Rightarrow> (case url_decode (drop 2 cs) of Inl e \<Rightarrow> Inl e | Inr r \<Rightarrow> Inr (char_of v # r)))
      else
        (case url_decode cs of Inl e \<Rightarrow> Inl e | Inr r \<Rightarrow> Inr (c # r)))"

subsection \<open>zarembmj\_homework8.cpp: the connection handler\<close>

text \<open>\<^verbatim>\<open>sendResponse\<close>, lines 177 to 186: the text written to the client.\<close>

definition CRLF :: string where
  "CRLF = [CHR 13, CHR 10]"

definition sendResponse :: "string \<Rightarrow> string" where
  "sendResponse output =
     ''HTTP/1.1 200 OK'' @ CRLF @
     ''Server: StockServer'' @ CRLF @
     ''Content-Length: '' @ decimal (length output) @ CRLF @
     ''Connection: Close'' @ CRLF @
     ''Content-Type: text/plain'' @ CRLF @ CRLF @
     output"

text \<open>
  Lines 212 to 218 of \<^verbatim>\<open>clientThread\<close>: the decoded request, with \<^verbatim>\<open>&\<close> and
  \<^verbatim>\<open>=\<close> replaced by spaces, is read through a string stream into
  \<^verbatim>\<open>dummy, trans, dummy, stock, dummy, amount\<close>. \<open>trans\<close> and \<open>stock\<close> start
  empty and \<open>amount\<close> starts at 0.
\<close>

definition parse_request :: "string \<Rightarrow> string \<times> string \<times> 32 word" where
  "parse_request request =
     (let is0 = \<lparr>rest = replace (CHR ''='') (CHR '' '') (replace (CHR ''&'') (CHR '' '') request),
                 failed = False\<rparr>;
          (dummy1, is1) = get_string [CHR 13] is0;
          (tr, is2) = get_string [] is1;
          (dummy2, is3) = get_string dummy1 is2;
          (stock, is4) = get_string [] is3;
          (dummy3, is5) = get_string dummy2 is4;
          (amount, is6) = get_unsigned 0 is5
      in (tr, stock, amount))"

text \<open>
  \<^verbatim>\<open>clientThread\<close>, lines 201 to 224, from the second word of the request line
  (\<open>request\<close>) on: decode, parse, process, respond. The result is the text written to
  the client and the store.
\<close>

definition clientThread :: "string \<Rightarrow> stockMap \<Rightarrow> (string \<times> stockMap) result" where
  "clientThread request sm =
     (case url_decode request of
        Inl e \<Rightarrow> Raised e
      | Inr decoded \<Rightarrow>
          (case parse_request decoded of (tr, stock, amount) \<Rightarrow>
             (case processTrans tr stock amount sm of
                Returned (result, sm') \<Rightarrow> Returned (sendResponse result, sm')
              | Blocked \<Rightarrow> Blocked
              | Raised e \<Rightarrow> Raised e)))"

text \<open>
  The request format in words: the request (with \<^verbatim>\<open>&\<close> and \<^verbatim>\<open>=\<close> replaced by
  spaces) is split into white-space separated tokens; tokens 2, 4 and 6 carry the
  transaction, the name and the amount; a missing token is empty; the amount is read
  from the start of token 6 as stated with \<open>spec_quantity\<close> below.
\<close>

function spec_tokens :: "string \<Rightarrow> string list" where
  "spec_tokens s =
     (if dropWhile isspace s = [] then []
      else takeWhile (\<lambda>c. \<not> isspace c) (dropWhile isspace s)
           # spec_tokens (dropWhile (\<lambda>c. \<not> isspace c) (dropWhile isspace s)))"
  by pat_completeness auto
termination
proof (relation "measure length")
  fix s :: string
  assume ne: "dropWhile isspace s \<noteq> []"
  then have "\<not> isspace (hd (dropWhile isspace s))"
    by (rule hd_dropWhile)
  with ne have eq: "dropWhile (\<lambda>c. \<not> isspace c) (dropWhile isspace s)
      = dropWhile (\<lambda>c. \<not> isspace c) (tl (dropWhile isspace s))"
    by (cases "dropWhile isspace s") auto
  have "length (dropWhile (\<lambda>c. \<not> isspace c) (tl (dropWhile isspace s)))
      \<le> length (tl (dropWhile isspace s))"
    by (rule length_dropWhile_le)
  with eq have "length (dropWhile (\<lambda>c. \<not> isspace c) (dropWhile isspace s))
      \<le> length (tl (dropWhile isspace s))"
    by (simp only:)
  also from ne have "\<dots> < length (dropWhile isspace s)"
    by (cases "dropWhile isspace s") auto
  also have "\<dots> \<le> length s"
    by (rule length_dropWhile_le)
  finally show "(dropWhile (\<lambda>c. \<not> isspace c) (dropWhile isspace s), s) \<in> measure length"
    by simp
qed simp

declare spec_tokens.simps [simp del]

definition spec_token :: "string list \<Rightarrow> nat \<Rightarrow> string" where
  "spec_token ts n = (if 0 < n \<and> n \<le> length ts then ts ! (n - 1) else [])"

text \<open>
  The amount of a token in words. The token may begin with one sign, \<^verbatim>\<open>+\<close> or
  \<^verbatim>\<open>-\<close>; the decimal digits that follow are the number and whatever comes after them
  is ignored. With no digit the amount is 0. A number above 4294967295 gives 4294967295,
  whatever the sign. Otherwise the amount is the number, or, after a minus sign,
  \<open>2 ^ 32\<close> minus the number (0 for the number 0).
\<close>

definition spec_is_digit :: "char \<Rightarrow> bool" where
  "spec_is_digit c = (c \<in> set ''0123456789'')"

text \<open>The value of a digit is its place in \<^verbatim>\<open>0123456789\<close>.\<close>

definition spec_digit :: "char \<Rightarrow> nat" where
  "spec_digit c = length (takeWhile (\<lambda>d. d \<noteq> c) ''0123456789'')"

text \<open>The number written by digits given from the least significant one.\<close>

fun spec_number :: "string \<Rightarrow> nat" where
  "spec_number [] = 0"
| "spec_number (d # ds) = spec_digit d + 10 * spec_number ds"

definition spec_unsigned_part :: "string \<Rightarrow> string" where
  "spec_unsigned_part t = (if t \<noteq> [] \<and> (hd t = CHR ''-'' \<or> hd t = CHR ''+'') then tl t else t)"

definition spec_quantity :: "string \<Rightarrow> 32 word" where
  "spec_quantity t =
     (let ds = takeWhile spec_is_digit (spec_unsigned_part t);
          n = spec_number (rev ds)
      in if ds = [] then 0
         else if 4294967295 < n then 4294967295
         else if hd t = CHR ''-'' then word_of_nat ((4294967296 - n) mod 4294967296)
         else word_of_nat n)"

text \<open>A token with no digit after its optional sign.\<close>

definition spec_no_number :: "string \<Rightarrow> bool" where
  "spec_no_number t = (takeWhile spec_is_digit (spec_unsigned_part t) = [])"

definition spec_decode :: "string \<Rightarrow> string \<times> string \<times> 32 word" where
  "spec_decode request =
     (let ts = spec_tokens (replace (CHR ''='') (CHR '' '') (replace (CHR ''&'') (CHR '' '') request))
      in (spec_token ts 2, spec_token ts 4, spec_quantity (spec_token ts 6)))"

text \<open>The tokens that a stream can still deliver: none once it has failed.\<close>

definition remaining :: "istringstream \<Rightarrow> string list" where
  "remaining is = (if failed is then [] else spec_tokens (rest is))"

subsection \<open>zarembmj\_homework9.cpp: the connection handler and the admission count\<close>

text \<open>
  \<^verbatim>\<open>clientThread\<close>, lines 209 to 239. After \<^verbatim>\<open>processTrans\<close> has returned the
  handler runs \<^verbatim>\<open>sm::threadCount--\<close>, \<^verbatim>\<open>sm::threadStatus.notify_one()\<close> and
  \<^verbatim>\<open>sendResponse\<close>, in this order. The result lists these effects in program order.
\<close>

datatype event = Decrement | NotifyOne | Write string

definition clientThread9 :: "string \<Rightarrow> stockMap \<Rightarrow> (event list \<times> stockMap) result" where
  "clientThread9 request sm =
     (case url_decode request of
        Inl e \<Rightarrow> Raised e
      | Inr decoded \<Rightarrow>
          (case parse_request decoded of (tr, stock, amount) \<Rightarrow>
             (case processTrans tr stock amount sm of
                Returned (result, sm') \<Rightarrow>
                  Returned ([Decrement, NotifyOne, Write (sendResponse result)], sm')
              | Blocked \<Rightarrow> Blocked
              | Raised e \<Rightarrow> Raised e)))"

text \<open>The order the specification asks for: a decrement only after a response has been
  written. \<open>written\<close> says whether a response has been written so far.\<close>

fun spec_release_after_response :: "bool \<Rightarrow> event list \<Rightarrow> bool" where
  "spec_release_after_response written [] = True"
| "spec_release_after_response written (Write r # es) = spec_release_after_response True es"
| "spec_release_after_response written (Decrement # es) =
     (written \<and> spec_release_after_response written es)"
| "spec_release_after_response written (NotifyOne # es) = spec_release_after_response written es"

text \<open>
  \<^verbatim>\<open>runServer\<close>, lines 257 to 283, and the handlers it spawns, as threads that take
  turns. The server thread is at one of: \<^verbatim>\<open>server.accept\<close> (262), the test
  \<^verbatim>\<open>sm::threadCount < maxThreads\<close> of the wait (273), \<^verbatim>\<open>sm::threadCount++\<close> (276),
  \<^verbatim>\<open>std::thread thr(...)\<close> (280). A handler is at one of: reading and processing its
  request (212 to 228), \<^verbatim>\<open>sm::threadCount--\<close> (232), \<^verbatim>\<open>notify_one\<close> (234),
  \<^verbatim>\<open>sendResponse\<close> (238), or it has finished. \<^verbatim>\<open>sm::threadCount\<close> is a
  \<^verbatim>\<open>std::atomic<int>\<close>: each access is one step. The count is an integer here:
  it is shown below to stay between 0 and \<open>maxThreads\<close>, itself an \<^verbatim>\<open>int\<close>, so the
  32-bit counter never wraps around.
\<close>

datatype server_pc = AtAccept | AtWait | AtIncrement | AtSpawn

datatype client_pc = AtProcess | AtDecrement | AtNotify | AtSend | Finished

record server =
  threadCount :: int
  pc :: server_pc
  clients :: "client_pc list"

definition start :: server where
  "start = \<lparr>threadCount = 0, pc = AtAccept, clients = []\<rparr>"

text \<open>One step of the server thread; \<open>None\<close> when it cannot move (the wait's test is
  false).\<close>

definition runServer_step :: "int \<Rightarrow> server \<Rightarrow> server option" where
  "runServer_step maxThreads s =
     (case pc s of
        AtAccept \<Rightarrow> Some (s\<lparr>pc := AtWait\<rparr>)
      | AtWait \<Rightarrow> if threadCount s < maxThreads then Some (s\<lparr>pc := AtIncrement\<rparr>) else None
      | AtIncrement \<Rightarrow> Some (s\<lparr>threadCount := threadCount s + 1, pc := AtSpawn\<rparr>)
      | AtSpawn \<Rightarrow> Some (s\<lparr>clients := clients s @ [AtProcess], pc := AtAccept\<rparr>))"

text \<open>One step of handler \<open>i\<close>; \<open>None\<close> when there is no such handler or it has
  finished. A handler whose \<^verbatim>\<open>processTrans\<close> waits simply takes no step.\<close>

definition clientThread_step :: "nat \<Rightarrow> server \<Rightarrow> server option" where
  "clientThread_step i s =
     (if i < length (clients s) then
        (case clients s ! i of
           AtProcess \<Rightarrow> Some (s\<lparr>clients := (clients s)[i := AtDecrement]\<rparr>)
         | AtDecrement \<Rightarrow>
             Some (s\<lparr>threadCount := threadCount s - 1, clients := (clients s)[i := AtNotify]\<rparr>)
         | AtNotify \<Rightarrow> Some (s\<lparr>clients := (clients s)[i := AtSend]\<rparr>)
         | AtSend \<Rightarrow> Some (s\<lparr>clients := (clients s)[i := Finished]\<rparr>)
         | Finished \<Rightarrow> None)
      else None)"

datatype thread = Server | Client nat

fun step :: "int \<Rightarrow> thread \<Rightarrow> server \<Rightarrow> server option" where
  "step maxThreads Server s = runServer_step maxThreads s"
| "step maxThreads (Client i) s = clientThread_step i s"

text \<open>A schedule is the list of the threads that move, in order; it is an execution when
  every step in it can be taken.\<close>

fun run :: "int \<Rightarrow> thread list \<Rightarrow> server \<Rightarrow> server option" where
  "run maxThreads [] s = Some s"
| "run maxThreads (t # ts) s =
     (case step maxThreads t s of None \<Rightarrow> None | Some s' \<Rightarrow> run maxThreads ts s')"

definition processing :: "server \<Rightarrow> nat" where
  "processing s = length (filter (\<lambda>c. c = AtProcess) (clients s))"

definition admitted :: "server \<Rightarrow> nat" where
  "admitted s = length (filter (\<lambda>c. c = AtProcess \<or> c = AtDecrement) (clients s))"

text \<open>
  The invariant of the admission count: it is the number of handlers that have not yet
  run their decrement, plus one while the server is between its increment and the
  spawn; the server reaches its increment only with the count below the ceiling; the
  count is at most the ceiling.
\<close>

definition admission_inv :: "int \<Rightarrow> server \<Rightarrow> bool" where
  "admission_inv maxThreads s =
     (threadCount s = int (admitted s) + (if pc s = AtSpawn then 1 else 0)
      \<and> (pc s = AtIncrement \<longrightarrow> threadCount s < maxThreads)
      \<and> threadCount s \<le> maxThreads)"

subsection \<open>createStock called from several handlers\<close>

text \<open>
  \<^verbatim>\<open>createStock\<close> (lines 55 to 66 of \<^verbatim>\<open>zarembmj_homework8.cpp\<close>) takes no lock.
  A call is at one of its statements: the lookup (57), the assignment of the name
  (59), the assignment of the balance (60), or it has returned its message. Calls on
  several threads take turns statement by statement.
\<close>

datatype create_pc = AtFind | AtName | AtBalance | Replied string

type_synonym create_call = "string \<times> 32 word \<times> create_pc"

fun createStock_step :: "create_call \<Rightarrow> stockMap \<Rightarrow> create_call \<times> stockMap" where
  "createStock_step (stock, bal, AtFind) sm =
     (if sm stock = None then ((stock, bal, AtName), sm)
      else ((stock, bal, Replied (''Stock '' @ stock @ '' already exists'')), sm))"
| "createStock_step (stock, bal, AtName) sm =
     ((stock, bal, AtBalance), sm(stock \<mapsto> (subscript sm stock)\<lparr>name := stock\<rparr>))"
| "createStock_step (stock, bal, AtBalance) sm =
     ((stock, bal, Replied (''Stock '' @ stock @ '' created with balance = '' @ to_string bal)),
      sm(stock \<mapsto> (subscript sm stock)\<lparr>balance := bal\<rparr>))"
| "createStock_step (stock, bal, Replied msg) sm = ((stock, bal, Replied msg), sm)"

fun interleave :: "nat list \<Rightarrow> create_call list \<times> stockMap \<Rightarrow> create_call list \<times> stockMap" where
  "interleave [] (calls, sm) = (calls, sm)"
| "interleave (i # sched) (calls, sm) =
     (if i < length calls then
        (case createStock_step (calls ! i) sm of
           (call', sm') \<Rightarrow> interleave sched (calls[i := call'], sm'))
      else interleave sched (calls, sm))"

section \<open>Properties of the transaction processor\<close>

subsection \<open>Helper facts\<close>

lemma createStock_absent:
  "sm stock = None \<Longrightarrow>
     createStock stock b sm =
       (''Stock '' @ stock @ '' created with balance = '' @ to_string b,
        sm(stock \<mapsto> \<lparr>name = stock, balance = b\<rparr>))"
  by (simp add: createStock_def subscript_def Let_def)

lemma createStock_present:
  "sm stock = Some st \<Longrightarrow> createStock stock b sm = (''Stock '' @ stock @ '' already exists'', sm)"
  by (simp add: createStock_def)

lemma to_string_100: "to_string 100 = ''100''"
  by (simp add: to_string_def decimal.simps digit_char_def)

lemma to_string_130: "to_string 130 = ''130''"
  by (simp add: to_string_def decimal.simps digit_char_def)

lemma unat_add_no_overflow:
  fixes a b :: "32 word"
  shows "unat a + unat b < 4294967296 \<Longrightarrow> unat (a + b) = unat a + unat b"
  using unat_add_lem [of a b] by simp

subsection \<open>Balances\<close>

lemma balance_change:
  assumes "sm nm = Some st" and "processTrans tr stock q sm = Returned (msg, sm')"
    and "sm' nm = Some st'"
  shows "balance st' = balance st
         \<or> (tr = ''sell'' \<and> stock = nm \<and> balance st' = balance st + q)
         \<or> (tr = ''buy'' \<and> stock = nm \<and> q \<le> balance st
              \<and> uint (balance st') = uint (balance st) - uint q)"
proof (cases "tr = ''reset''")
  case True
  with assms show ?thesis by (auto simp: processTrans_def)
next
  case nr: False
  show ?thesis
  proof (cases "tr = ''create''")
    case True
    with assms nr show ?thesis
      by (cases "sm stock") (auto simp: processTrans_def createStock_absent createStock_present split: if_splits)
  next
    case nc: False
    show ?thesis
    proof (cases "sm stock")
      case None
      with assms nr nc show ?thesis by (simp add: processTrans_def)
    next
      case (Some s0)
      with assms nr nc show ?thesis
        by (auto simp: processTrans_def updateBalance_def balanceStatus_def uint_sub_if' word_le_def
            split: if_splits)
    qed
  qed
qed

text \<open>
  Claim C1. A balance is an unsigned 32-bit number, so it is never negative. A "buy" of
  \<open>q\<close> on an existing stock returns only when \<open>q \<le> balance\<close> holds, and then the new
  balance is the exact difference (the unsigned subtraction does not wrap around);
  otherwise the call waits with the store unchanged: it is not answered with an error.
  No other operation lowers a balance: a transaction of any kind that returns leaves the
  balance of a stock that stays in the store as it was, or adds to it (sell), or
  subtracts from it exactly (buy).
\<close>

theorem buy_waits_for_balance:
  assumes "sm nm = Some st"
  shows "processTrans ''buy'' nm q sm =
           (if q \<le> balance st
            then Returned (''Stock '' @ nm @ [CHR 39] @ ''s balance updated'',
                           sm(nm \<mapsto> st\<lparr>balance := balance st - q\<rparr>))
            else Blocked)
         \<and> (q \<le> balance st \<longrightarrow>
              uint (balance st - q) = uint (balance st) - uint q \<and> 0 \<le> uint (balance st) - uint q)
         \<and> (\<forall>tr stock q' msg sm' st'.
              processTrans tr stock q' sm = Returned (msg, sm') \<and> sm' nm = Some st' \<longrightarrow>
              balance st' = balance st
              \<or> (tr = ''sell'' \<and> stock = nm \<and> balance st' = balance st + q')
              \<or> (tr = ''buy'' \<and> stock = nm \<and> q' \<le> balance st
                   \<and> uint (balance st') = uint (balance st) - uint q'))"
proof -
  have buy: "processTrans ''buy'' nm q sm =
           (if q \<le> balance st
            then Returned (''Stock '' @ nm @ [CHR 39] @ ''s balance updated'',
                           sm(nm \<mapsto> st\<lparr>balance := balance st - q\<rparr>))
            else Blocked)"
    using assms by (simp add: processTrans_def updateBalance_def)
  have exact: "q \<le> balance st \<longrightarrow>
      uint (balance st - q) = uint (balance st) - uint q \<and> 0 \<le> uint (balance st) - uint q"
    by (simp add: uint_sub_if' word_le_def)
  have others: "\<forall>tr stock q' msg sm' st'.
      processTrans tr stock q' sm = Returned (msg, sm') \<and> sm' nm = Some st' \<longrightarrow>
      balance st' = balance st
      \<or> (tr = ''sell'' \<and> stock = nm \<and> balance st' = balance st + q')
      \<or> (tr = ''buy'' \<and> stock = nm \<and> q' \<le> balance st
           \<and> uint (balance st') = uint (balance st) - uint q')"
    using assms balance_change [of sm nm st] by blast
  from buy exact others show ?thesis by (simp only: simp_thms)
qed

text \<open>With balance 10 a buy of 15 waits; with balance 15 it returns and leaves 0.\<close>

theorem buy_waits_for_balance_witness:
  "processTrans ''buy'' ''X'' 15 [''X'' \<mapsto> \<lparr>name = ''X'', balance = 10\<rparr>] = Blocked
   \<and> processTrans ''buy'' ''X'' 15 [''X'' \<mapsto> \<lparr>name = ''X'', balance = 15\<rparr>] =
       Returned (''Stock X's balance updated'', [''X'' \<mapsto> \<lparr>name = ''X'', balance = 0\<rparr>])"
  using buy_waits_for_balance [where sm = "[''X'' \<mapsto> \<lparr>name = ''X'', balance = 10\<rparr>]" and nm = "''X''"
      and st = "\<lparr>name = ''X'', balance = 10\<rparr>" and q = 15]
    buy_waits_for_balance [where sm = "[''X'' \<mapsto> \<lparr>name = ''X'', balance = 15\<rparr>]" and nm = "''X''"
      and st = "\<lparr>name = ''X'', balance = 15\<rparr>" and q = 15]
  by simp

text \<open>
  Claim C4. A "sell" of \<open>q\<close> on an existing stock always returns and adds \<open>q\<close> to the
  balance (the addition of \<^verbatim>\<open>unsigned int\<close>); a following "status" answers
  \<^verbatim>\<open>Balance for stock <name> = <balance>\<close> with the new balance, which is the exact sum
  as long as the sum is below \<open>2 ^ 32\<close>.
\<close>

theorem sell_then_status:
  assumes "sm nm = Some st"
  shows "processTrans ''sell'' nm q sm =
           Returned (''Stock '' @ nm @ [CHR 39] @ ''s balance updated'',
                     sm(nm \<mapsto> st\<lparr>balance := balance st + q\<rparr>))
         \<and> processTrans ''status'' nm q' (sm(nm \<mapsto> st\<lparr>balance := balance st + q\<rparr>)) =
           Returned (''Balance for stock '' @ nm @ '' = '' @ to_string (balance st + q),
                     sm(nm \<mapsto> st\<lparr>balance := balance st + q\<rparr>))
         \<and> (unat (balance st) + unat q < 2 ^ 32 \<longrightarrow>
              to_string (balance st + q) = decimal (unat (balance st) + unat q))"
  using assms
  by (simp add: processTrans_def updateBalance_def balanceStatus_def to_string_def
      unat_add_no_overflow)

text \<open>The example of the specification: create X with 100, sell 30, status reports 130.\<close>

theorem sell_then_status_witness:
  "processTrans ''create'' ''X'' 100 Map.empty =
     Returned (''Stock X created with balance = 100'', [''X'' \<mapsto> \<lparr>name = ''X'', balance = 100\<rparr>])
   \<and> processTrans ''sell'' ''X'' 30 [''X'' \<mapsto> \<lparr>name = ''X'', balance = 100\<rparr>] =
     Returned (''Stock X's balance updated'', [''X'' \<mapsto> \<lparr>name = ''X'', balance = 130\<rparr>])
   \<and> processTrans ''status'' ''X'' 0 [''X'' \<mapsto> \<lparr>name = ''X'', balance = 130\<rparr>] =
     Returned (''Balance for stock X = 130'', [''X'' \<mapsto> \<lparr>name = ''X'', balance = 130\<rparr>])"
  using sell_then_status [where sm = "[''X'' \<mapsto> \<lparr>name = ''X'', balance = 100\<rparr>]" and nm = "''X''"
      and st = "\<lparr>name = ''X'', balance = 100\<rparr>" and q = 30 and q' = 0]
  by (simp add: to_string_130 to_string_100 processTrans_def createStock_absent)

subsection \<open>Dispatch\<close>

text \<open>
  Claim C2. For a name that is not in the store, "buy", "sell" and "status" answer
  \<^verbatim>\<open>Stock not found\<close> and leave the store as it was.
\<close>

theorem absent_stock_not_found:
  assumes "sm stock = None" and "tr = ''buy'' \<or> tr = ''sell'' \<or> tr = ''status''"
  shows "processTrans tr stock trades sm = Returned (''Stock not found'', sm)"
  using assms by (auto simp: processTrans_def)

theorem absent_stock_not_found_witness:
  "processTrans ''buy'' ''msft'' 5 Map.empty = Returned (''Stock not found'', Map.empty)
   \<and> processTrans ''sell'' ''msft'' 5 Map.empty = Returned (''Stock not found'', Map.empty)
   \<and> processTrans ''status'' ''msft'' 0 Map.empty = Returned (''Stock not found'', Map.empty)"
  using absent_stock_not_found [of Map.empty "''msft''" "''buy''" 5]
    absent_stock_not_found [of Map.empty "''msft''" "''sell''" 5]
    absent_stock_not_found [of Map.empty "''msft''" "''status''" 0]
  by simp

text \<open>
  Claim C3. "create" on a name that is not in the store inserts the stock with the given
  balance and answers \<^verbatim>\<open>Stock <name> created with balance = <b>\<close>; "create" on a name
  that is in the store answers \<^verbatim>\<open>Stock <name> already exists\<close> and leaves the whole
  store, that stock's balance included, as it was.
\<close>

theorem create_idempotent:
  "(sm stock = None \<longrightarrow>
      processTrans ''create'' stock b sm =
        Returned (''Stock '' @ stock @ '' created with balance = '' @ to_string b,
                  sm(stock \<mapsto> \<lparr>name = stock, balance = b\<rparr>)))
   \<and> (sm stock = Some st \<longrightarrow>
      processTrans ''create'' stock b sm = Returned (''Stock '' @ stock @ '' already exists'', sm))"
  by (simp add: processTrans_def createStock_absent createStock_present)

text \<open>create X 100, then create X 50: the balance stays 100.\<close>

theorem create_idempotent_witness:
  "processTrans ''create'' ''X'' 100 Map.empty =
     Returned (''Stock X created with balance = 100'', [''X'' \<mapsto> \<lparr>name = ''X'', balance = 100\<rparr>])
   \<and> processTrans ''create'' ''X'' 50 [''X'' \<mapsto> \<lparr>name = ''X'', balance = 100\<rparr>] =
     Returned (''Stock X already exists'', [''X'' \<mapsto> \<lparr>name = ''X'', balance = 100\<rparr>])"
  using create_idempotent [of Map.empty "''X''" 100]
    create_idempotent [where sm = "[''X'' \<mapsto> \<lparr>name = ''X'', balance = 100\<rparr>]" and stock = "''X''"
      and st = "\<lparr>name = ''X'', balance = 100\<rparr>" and b = 50]
  by (simp add: to_string_100)

text \<open>
  Claim C5, as stated for every variant of the transaction processor, fails for
  \<^verbatim>\<open>raodm_homework8.cpp\<close>, whose \<^verbatim>\<open>processTrans\<close> has no "reset" branch: with X in
  the store, "reset" answers \<^verbatim>\<open>Invalid request\<close>, the store is kept, and "status" on
  X still reports its balance.
\<close>

theorem reset_raodm_counterexample:
  "processTrans_raodm ''reset'' ''X'' 0 [''X'' \<mapsto> \<lparr>name = ''X'', balance = 100\<rparr>] =
     Returned (''Invalid request'', [''X'' \<mapsto> \<lparr>name = ''X'', balance = 100\<rparr>])
   \<and> processTrans_raodm ''status'' ''X'' 0 [''X'' \<mapsto> \<lparr>name = ''X'', balance = 100\<rparr>] =
     Returned (''Balance for stock X = 100'', [''X'' \<mapsto> \<lparr>name = ''X'', balance = 100\<rparr>])"
  by (simp add: processTrans_raodm_def getStatus_def to_string_100)

text \<open>
  Claim C5, amended. In \<^verbatim>\<open>zarembmj_homework8.cpp\<close> and \<^verbatim>\<open>zarembmj_homework9.cpp\<close>
  "reset" empties the store whatever the name and the quantity are and answers
  \<^verbatim>\<open>Stocks reset\<close>; "status" on any name then answers \<^verbatim>\<open>Stock not found\<close>. In
  \<^verbatim>\<open>raodm_homework8.cpp\<close> "reset" is not a transaction: it is answered like any
  unknown kind and the store is kept.
\<close>

theorem reset_clears_store:
  "processTrans ''reset'' stock q sm = Returned (''Stocks reset'', Map.empty)
   \<and> processTrans ''status'' nm q' Map.empty = Returned (''Stock not found'', Map.empty)
   \<and> processTrans_raodm ''reset'' stock q sm =
       Returned (if sm stock = None then ''Stock not found'' else ''Invalid request'', sm)"
  by (simp add: processTrans_def processTrans_raodm_def)

theorem reset_clears_store_witness:
  "processTrans ''reset'' ''ignored'' 7 [''X'' \<mapsto> \<lparr>name = ''X'', balance = 100\<rparr>] =
     Returned (''Stocks reset'', Map.empty)
   \<and> processTrans ''status'' ''X'' 0 Map.empty = Returned (''Stock not found'', Map.empty)
   \<and> processTrans_raodm ''reset'' ''ignored'' 7 [''X'' \<mapsto> \<lparr>name = ''X'', balance = 100\<rparr>] =
     Returned (''Stock not found'', [''X'' \<mapsto> \<lparr>name = ''X'', balance = 100\<rparr>])"
  using reset_clears_store [where stock = "''ignored''" and q = 7 and nm = "''X''" and q' = 0
      and sm = "[''X'' \<mapsto> \<lparr>name = ''X'', balance = 100\<rparr>]"]
  by simp

text \<open>
  Claim C6, as stated for every name, fails for a name that is not in the store: the
  lookup comes before the test of the kind, so the answer is \<^verbatim>\<open>Stock not found\<close>.
\<close>

theorem unknown_kind_counterexample:
  "processTrans ''bogus'' ''X'' 5 Map.empty = Returned (''Stock not found'', Map.empty)
   \<and> ''Stock not found'' \<noteq> ''Invalid request''"
  by (simp add: processTrans_def)

text \<open>
  Claim C6, amended. For a kind other than reset, create, buy, sell and status, and for
  every quantity, the store is left as it was; the answer is \<^verbatim>\<open>Invalid request\<close> when
  the name is in the store and \<^verbatim>\<open>Stock not found\<close> when it is not.
\<close>

theorem unknown_kind_result:
  assumes "tr \<noteq> ''reset''" "tr \<noteq> ''create''" "tr \<noteq> ''buy''" "tr \<noteq> ''sell''" "tr \<noteq> ''status''"
  shows "processTrans tr stock q sm =
           Returned (if sm stock = None then ''Stock not found'' else ''Invalid request'', sm)"
  using assms by (simp add: processTrans_def)

theorem unknown_kind_result_witness:
  "processTrans ''bogus'' ''X'' 5 [''X'' \<mapsto> \<lparr>name = ''X'', balance = 100\<rparr>] =
     Returned (''Invalid request'', [''X'' \<mapsto> \<lparr>name = ''X'', balance = 100\<rparr>])
   \<and> processTrans ''bogus'' ''Y'' 5 [''X'' \<mapsto> \<lparr>name = ''X'', balance = 100\<rparr>] =
     Returned (''Stock not found'', [''X'' \<mapsto> \<lparr>name = ''X'', balance = 100\<rparr>])"
  using unknown_kind_result [where tr = "''bogus''" and stock = "''X''" and q = 5
      and sm = "[''X'' \<mapsto> \<lparr>name = ''X'', balance = 100\<rparr>]"]
    unknown_kind_result [where tr = "''bogus''" and stock = "''Y''" and q = 5
      and sm = "[''X'' \<mapsto> \<lparr>name = ''X'', balance = 100\<rparr>]"]
  by simp

section \<open>The admission count\<close>

subsection \<open>The invariant is kept by every step\<close>

lemma filter_update_count_nat:
  "i < length xs \<Longrightarrow>
     length (filter P (xs[i := v])) + (if P (xs ! i) then 1 else 0) =
       length (filter P xs) + (if P v then 1 else 0)"
proof (induction xs arbitrary: i)
  case Nil
  then show ?case by simp
next
  case (Cons x xs)
  show ?case
  proof (cases i)
    case 0
    then show ?thesis by simp
  next
    case (Suc j)
    with Cons.prems have "j < length xs" by simp
    from Cons.IH [OF this] Suc show ?thesis by simp
  qed
qed

lemma filter_update_count:
  assumes "i < length xs"
  shows "int (length (filter P (xs[i := v]))) =
       int (length (filter P xs)) - (if P (xs ! i) then 1 else 0) + (if P v then 1 else 0)"
  using filter_update_count_nat [OF assms, of P v] by (simp split: if_splits)

lemma runServer_step_inv:
  assumes "admission_inv N s" and "runServer_step N s = Some s'"
  shows "admission_inv N s'"
  using assms
  by (cases "pc s") (auto simp: admission_inv_def runServer_step_def admitted_def split: if_splits)

lemma clientThread_step_inv:
  assumes "admission_inv N s" and "clientThread_step i s = Some s'"
  shows "admission_inv N s'"
proof -
  from assms(2) have i: "i < length (clients s)"
    by (auto simp: clientThread_step_def split: if_splits)
  show ?thesis
  proof (cases "clients s ! i")
    case AtProcess
    with assms i show ?thesis
      by (auto simp: admission_inv_def clientThread_step_def admitted_def filter_update_count)
  next
    case AtDecrement
    with assms i show ?thesis
      by (auto simp: admission_inv_def clientThread_step_def admitted_def filter_update_count)
  next
    case AtNotify
    with assms i show ?thesis
      by (auto simp: admission_inv_def clientThread_step_def admitted_def filter_update_count)
  next
    case AtSend
    with assms i show ?thesis
      by (auto simp: admission_inv_def clientThread_step_def admitted_def filter_update_count)
  next
    case Finished
    with assms i show ?thesis
      by (simp add: clientThread_step_def)
  qed
qed

lemma step_inv:
  "admission_inv N s \<Longrightarrow> step N t s = Some s' \<Longrightarrow> admission_inv N s'"
  by (cases t) (auto intro: runServer_step_inv clientThread_step_inv)

lemma run_inv:
  "admission_inv N s \<Longrightarrow> run N sched s = Some s' \<Longrightarrow> admission_inv N s'"
proof (induction sched arbitrary: s)
  case Nil
  then show ?case by simp
next
  case (Cons t sched)
  from Cons.prems(2) obtain s1 where s1: "step N t s = Some s1" and r: "run N sched s1 = Some s'"
    by (auto split: option.splits)
  from Cons.prems(1) s1 have "admission_inv N s1" by (rule step_inv)
  then show ?case using r by (rule Cons.IH)
qed

lemma start_inv: "0 \<le> N \<Longrightarrow> admission_inv N start"
  by (simp add: admission_inv_def start_def admitted_def)

lemma filter_count_mono:
  "(\<And>x. P x \<Longrightarrow> Q x) \<Longrightarrow> length (filter P xs) \<le> length (filter Q xs)"
  by (induction xs) auto

lemma processing_le_admitted: "processing s \<le> admitted s"
  unfolding processing_def admitted_def by (rule filter_count_mono) simp

subsection \<open>The ceiling\<close>

text \<open>
  Notifications are not part of the state: \<^verbatim>\<open>notify_one\<close> only wakes the server so
  that it tests the count again, which the schedule may let it do at any time. Every
  execution of the code is therefore a schedule of \<open>run\<close>.
\<close>

text \<open>
  Claim C8. With a ceiling \<open>maxThreads \<ge> 0\<close>, in every state that the server and its
  handlers can reach: the admission count is at most the ceiling, and so is the number
  of admitted handlers and of handlers in their processing step; the server is at its
  increment only with the count strictly below the ceiling; with the count at the
  ceiling a waiting server cannot move, and no server step raises the count: the next
  handler is admitted only after a handler has decremented it.
\<close>

theorem admission_bounded:
  assumes "0 \<le> maxThreads" and "run maxThreads sched start = Some s"
  shows "0 \<le> threadCount s \<and> threadCount s \<le> maxThreads
         \<and> int (admitted s) \<le> maxThreads
         \<and> int (processing s) \<le> maxThreads
         \<and> (pc s = AtIncrement \<longrightarrow> threadCount s < maxThreads)
         \<and> (threadCount s = maxThreads \<and> pc s = AtWait \<longrightarrow> runServer_step maxThreads s = None)
         \<and> (threadCount s = maxThreads \<longrightarrow>
              (\<forall>s'. runServer_step maxThreads s = Some s' \<longrightarrow> threadCount s' = threadCount s))"
proof -
  from assms have inv: "admission_inv maxThreads s"
    using run_inv start_inv by blast
  have adm: "int (admitted s) \<le> threadCount s"
    using inv by (simp add: admission_inv_def split: if_splits)
  have le: "threadCount s \<le> maxThreads"
    using inv by (simp add: admission_inv_def)
  have proc: "int (processing s) \<le> int (admitted s)"
    using processing_le_admitted by simp
  have inc: "pc s = AtIncrement \<longrightarrow> threadCount s < maxThreads"
    using inv unfolding admission_inv_def by blast
  have wait: "threadCount s = maxThreads \<and> pc s = AtWait \<longrightarrow> runServer_step maxThreads s = None"
    by (simp add: runServer_step_def)
  have full: "threadCount s = maxThreads \<longrightarrow>
      (\<forall>s'. runServer_step maxThreads s = Some s' \<longrightarrow> threadCount s' = threadCount s)"
    using inc by (cases "pc s") (auto simp: runServer_step_def)
  from adm le proc inc wait full show ?thesis by simp
qed


text \<open>Ceiling 2: after two admissions the count is 2 and the server, back at its wait,
  cannot move; once handler 0 has decremented the count the third handler is admitted.\<close>

theorem admission_bounded_witness:
  "run 2 [Server, Server, Server, Server, Server, Server, Server, Server, Server] start =
     Some \<lparr>threadCount = 2, pc = AtWait, clients = [AtProcess, AtProcess]\<rparr>
   \<and> threadCount \<lparr>threadCount = 2, pc = AtWait, clients = [AtProcess, AtProcess]\<rparr> \<le> 2
   \<and> processing \<lparr>threadCount = 2, pc = AtWait, clients = [AtProcess, AtProcess]\<rparr> = 2
   \<and> runServer_step 2 \<lparr>threadCount = 2, pc = AtWait, clients = [AtProcess, AtProcess]\<rparr> = None
   \<and> run 2 [Client 0, Client 0, Server, Server, Server]
         \<lparr>threadCount = 2, pc = AtWait, clients = [AtProcess, AtProcess]\<rparr> =
       Some \<lparr>threadCount = 2, pc = AtAccept, clients = [AtNotify, AtProcess, AtProcess]\<rparr>"
  using admission_bounded [of 2 "[Server, Server, Server, Server, Server, Server, Server, Server, Server]"
      "\<lparr>threadCount = 2, pc = AtWait, clients = [AtProcess, AtProcess]\<rparr>"]
  by (simp add: start_def runServer_step_def clientThread_step_def processing_def)

section \<open>The order of release and response\<close>

lemma url_decode_status_X: "url_decode ''/trans=status&stock=X'' = Inr ''/trans=status&stock=X''"
  by simp

lemma parse_status_X: "parse_request ''/trans=status&stock=X'' = (''status'', ''X'', 0)"
  by (simp add: parse_request_def replace_def get_string_def get_unsigned_def isspace_def)

text \<open>
  Claim C9, as stated, fails: in \<^verbatim>\<open>zarembmj_homework9.cpp\<close> the handler decrements
  the count before it writes the response. For a "status" on an unknown stock the
  effects are decrement, notify, write, and the decrement is not after a write.
\<close>

theorem release_before_response_counterexample:
  "clientThread9 ''/trans=status&stock=X'' Map.empty =
     Returned ([Decrement, NotifyOne, Write (sendResponse ''Stock not found'')], Map.empty)
   \<and> \<not> spec_release_after_response False
         [Decrement, NotifyOne, Write (sendResponse ''Stock not found'')]"
  by (simp add: clientThread9_def url_decode_status_X parse_status_X processTrans_def)

text \<open>
  Claim C9, amended. For every request, the handler of \<^verbatim>\<open>zarembmj_homework9.cpp\<close>
  behaves as the handler of \<^verbatim>\<open>zarembmj_homework8.cpp\<close> with one decrement of the
  admission count and one notification placed after \<^verbatim>\<open>processTrans\<close> has returned
  and before the response is written; a handler whose transaction waits or raises
  performs none of the three. So whenever the handler returns, its decrement comes
  before its write.
\<close>

theorem release_between_processing_and_response:
  "clientThread9 request sm =
     (case clientThread request sm of
        Returned (response, sm') \<Rightarrow> Returned ([Decrement, NotifyOne, Write response], sm')
      | Blocked \<Rightarrow> Blocked
      | Raised e \<Rightarrow> Raised e)
   \<and> (clientThread9 request sm = Returned (evs, sm1) \<longrightarrow>
        (\<exists>response. evs = [Decrement, NotifyOne, Write response])
        \<and> \<not> spec_release_after_response False evs)"
proof -
  have same: "clientThread9 request sm =
     (case clientThread request sm of
        Returned (response, sm') \<Rightarrow> Returned ([Decrement, NotifyOne, Write response], sm')
      | Blocked \<Rightarrow> Blocked
      | Raised e \<Rightarrow> Raised e)"
    by (simp add: clientThread9_def clientThread_def split: sum.splits prod.splits result.splits)
  have order: "clientThread9 request sm = Returned (evs, sm1) \<longrightarrow>
        (\<exists>response. evs = [Decrement, NotifyOne, Write response])
        \<and> \<not> spec_release_after_response False evs"
    by (auto simp: clientThread9_def split: sum.splits prod.splits result.splits)
  from same order show ?thesis by simp
qed

theorem release_between_processing_and_response_witness:
  "clientThread9 ''/trans=status&stock=X'' Map.empty =
     Returned ([Decrement, NotifyOne, Write (sendResponse ''Stock not found'')], Map.empty)
   \<and> clientThread ''/trans=status&stock=X'' Map.empty =
     Returned (sendResponse ''Stock not found'', Map.empty)"
  using release_between_processing_and_response [of "''/trans=status&stock=X''" Map.empty]
  by (simp add: clientThread_def url_decode_status_X parse_status_X processTrans_def)

section \<open>Creates on several threads\<close>

lemma to_string_1: "to_string 1 = ''1''"
  by (simp add: to_string_def decimal.simps digit_char_def)

lemma to_string_2: "to_string 2 = ''2''"
  by (simp add: to_string_def decimal.simps digit_char_def)

text \<open>
  Claim C10, as stated, fails: \<^verbatim>\<open>createStock\<close> looks the name up and inserts it in
  separate statements with no lock. When two calls for the new name Y both run their
  lookup before either inserts, both answer "created", and the store holds the balance
  of the call that wrote last.
\<close>

theorem concurrent_create_counterexample:
  "interleave [0, 1, 0, 0, 1, 1] ([(''Y'', 1, AtFind), (''Y'', 2, AtFind)], Map.empty) =
     ([(''Y'', 1, Replied ''Stock Y created with balance = 1''),
       (''Y'', 2, Replied ''Stock Y created with balance = 2'')],
      [''Y'' \<mapsto> \<lparr>name = ''Y'', balance = 2\<rparr>])"
  by (simp add: subscript_def to_string_1 to_string_2)

text \<open>
  Claim C10, amended. A call of \<^verbatim>\<open>createStock\<close> that runs its statements without
  another call in between behaves as \<open>createStock\<close>; and two calls for a name that is
  not in the store, run one after the other in either order, give exactly one "created"
  answer and one "already exists" answer, and the store holds the balance of the first.
\<close>

theorem create_calls_in_turn:
  "interleave [0, 0, 0] ([(stock, b, AtFind)], sm) =
     ([(stock, b, Replied (fst (createStock stock b sm)))], snd (createStock stock b sm))
   \<and> (sm stock = None \<longrightarrow>
        interleave [0, 0, 0, 1] ([(stock, b1, AtFind), (stock, b2, AtFind)], sm) =
          ([(stock, b1, Replied (''Stock '' @ stock @ '' created with balance = '' @ to_string b1)),
            (stock, b2, Replied (''Stock '' @ stock @ '' already exists''))],
           sm(stock \<mapsto> \<lparr>name = stock, balance = b1\<rparr>))
        \<and> interleave [1, 1, 1, 0] ([(stock, b1, AtFind), (stock, b2, AtFind)], sm) =
          ([(stock, b1, Replied (''Stock '' @ stock @ '' already exists'')),
            (stock, b2, Replied (''Stock '' @ stock @ '' created with balance = '' @ to_string b2))],
           sm(stock \<mapsto> \<lparr>name = stock, balance = b2\<rparr>)))"
  by (simp add: createStock_def subscript_def Let_def)

theorem create_calls_in_turn_witness:
  "interleave [0, 0, 0, 1] ([(''Y'', 1, AtFind), (''Y'', 2, AtFind)], Map.empty) =
     ([(''Y'', 1, Replied ''Stock Y created with balance = 1''),
       (''Y'', 2, Replied ''Stock Y already exists'')],
      [''Y'' \<mapsto> \<lparr>name = ''Y'', balance = 1\<rparr>])
   \<and> interleave [1, 1, 1, 0] ([(''Y'', 1, AtFind), (''Y'', 2, AtFind)], Map.empty) =
     ([(''Y'', 1, Replied ''Stock Y already exists''),
       (''Y'', 2, Replied ''Stock Y created with balance = 2'')],
      [''Y'' \<mapsto> \<lparr>name = ''Y'', balance = 2\<rparr>])"
  using create_calls_in_turn [where stock = "''Y''" and b = 1 and ?b1.0 = 1 and ?b2.0 = 2
      and sm = Map.empty]
  by (simp add: to_string_1 to_string_2 createStock_def subscript_def)

section \<open>The request decoder\<close>

subsection \<open>The stream reads the tokens of the request in order\<close>

lemma isdigit_not_isspace: "isdigit c \<Longrightarrow> \<not> isspace c"
  by (auto simp: isdigit_def isspace_def)

lemma takeWhile_isdigit_token:
  "takeWhile isdigit (takeWhile (\<lambda>c. \<not> isspace c) s) = takeWhile isdigit s"
  by (induction s) (auto simp: isdigit_not_isspace)

lemma leading_unsigned_token:
  assumes "s \<noteq> []" and "\<not> isspace (hd s)"
  shows "leading_unsigned (takeWhile (\<lambda>c. \<not> isspace c) s) = leading_unsigned s"
proof -
  from assms obtain c cs where s: "s = c # cs" and c: "\<not> isspace c"
    by (cases s) auto
  show ?thesis
    unfolding s leading_unsigned_def using c
    by (simp add: takeWhile_isdigit_token)
qed

lemma spec_tokens_Nil: "dropWhile isspace s = [] \<Longrightarrow> spec_tokens s = []"
  by (subst spec_tokens.simps) simp

lemma spec_tokens_Cons:
  "dropWhile isspace s \<noteq> [] \<Longrightarrow>
     spec_tokens s = takeWhile (\<lambda>c. \<not> isspace c) (dropWhile isspace s)
                     # spec_tokens (dropWhile (\<lambda>c. \<not> isspace c) (dropWhile isspace s))"
  by (subst spec_tokens.simps) simp

lemma get_string_value:
  "fst (get_string v is) = (case remaining is of [] \<Rightarrow> v | t # ts \<Rightarrow> t)"
  by (cases "dropWhile isspace (rest is) = []")
     (auto simp: get_string_def remaining_def spec_tokens_Nil spec_tokens_Cons Let_def)

lemma get_string_remaining:
  "remaining (snd (get_string v is)) = drop 1 (remaining is)"
  by (cases "dropWhile isspace (rest is) = []")
     (auto simp: get_string_def remaining_def spec_tokens_Nil spec_tokens_Cons Let_def)

lemma get_unsigned_value:
  "fst (get_unsigned v is) = (case remaining is of [] \<Rightarrow> v | t # ts \<Rightarrow> fst (leading_unsigned t))"
proof (cases "dropWhile isspace (rest is) = []")
  case True
  then show ?thesis
    by (simp add: get_unsigned_def remaining_def spec_tokens_Nil)
next
  case False
  then have "\<not> isspace (hd (dropWhile isspace (rest is)))"
    by (rule hd_dropWhile)
  with False show ?thesis
    by (auto simp: get_unsigned_def remaining_def spec_tokens_Cons Let_def leading_unsigned_token)
qed

lemma token_of_drop:
  "(case drop k ts of [] \<Rightarrow> [] | t # r \<Rightarrow> t) = spec_token ts (Suc k)"
  by (cases "drop k ts") (auto simp: spec_token_def not_le hd_drop_conv_nth dest: arg_cong [where f = hd])

lemma remaining_start: "remaining \<lparr>rest = s, failed = False\<rparr> = spec_tokens s"
  by (simp add: remaining_def)

subsection \<open>The number read by the stream is the amount of the token\<close>

lemma spec_is_digit_cases:
  "spec_is_digit c \<longleftrightarrow>
     c = CHR ''0'' \<or> c = CHR ''1'' \<or> c = CHR ''2'' \<or> c = CHR ''3'' \<or> c = CHR ''4''
     \<or> c = CHR ''5'' \<or> c = CHR ''6'' \<or> c = CHR ''7'' \<or> c = CHR ''8'' \<or> c = CHR ''9''"
  unfolding spec_is_digit_def by (simp only: set_simps insert_iff empty_iff simp_thms)

lemma digit_chars:
  assumes "spec_is_digit c"
  shows "isdigit c \<and> digit_val c = spec_digit c"
  using assms unfolding spec_is_digit_cases
  by (elim disjE) (simp_all add: isdigit_def digit_val_def spec_digit_def)

lemma char_eqI: "(of_char c :: nat) = of_char d \<Longrightarrow> c = d"
  by simp

lemma isdigit_is_digit:
  assumes "isdigit c"
  shows "spec_is_digit c"
proof -
  let ?n = "of_char c :: nat"
  from assms have "?n = 48 \<or> ?n = 49 \<or> ?n = 50 \<or> ?n = 51 \<or> ?n = 52 \<or> ?n = 53 \<or> ?n = 54
      \<or> ?n = 55 \<or> ?n = 56 \<or> ?n = 57"
    unfolding isdigit_def by arith
  then have "c = CHR ''0'' \<or> c = CHR ''1'' \<or> c = CHR ''2'' \<or> c = CHR ''3'' \<or> c = CHR ''4''
     \<or> c = CHR ''5'' \<or> c = CHR ''6'' \<or> c = CHR ''7'' \<or> c = CHR ''8'' \<or> c = CHR ''9''"
    by (elim disjE) (simp_all add: char_eqI)
  then show ?thesis
    by (simp only: spec_is_digit_cases)
qed

lemma isdigit_eq: "isdigit = spec_is_digit"
  using digit_chars isdigit_is_digit by blast


lemma digits_value_snoc: "digits_value (ds @ [d]) = 10 * digits_value ds + digit_val d"
  by (simp add: digits_value_def)

lemma digits_value_spec:
  "\<forall>c \<in> set ds. spec_is_digit c \<Longrightarrow> digits_value ds = spec_number (rev ds)"
proof (induction ds rule: rev_induct)
  case Nil
  show ?case by (simp add: digits_value_def)
next
  case (snoc d ds)
  then have "digits_value ds = spec_number (rev ds)" and "digit_val d = spec_digit d"
    by (simp_all add: digit_chars)
  then show ?case by (simp add: digits_value_snoc)
qed

lemma leading_digits_spec:
  "digits_value (takeWhile spec_is_digit s) = spec_number (rev (takeWhile spec_is_digit s))"
  by (rule digits_value_spec) (auto dest: set_takeWhileD)

lemma minus_word_of_nat:
  assumes "n \<le> 4294967295"
  shows "- (word_of_nat n :: 32 word) = word_of_nat ((4294967296 - n) mod 4294967296)"
proof -
  have "(word_of_nat (4294967296 - n) :: 32 word) + word_of_nat n = word_of_nat 4294967296"
    using assms by (simp flip: of_nat_add)
  also have "\<dots> = (0 :: 32 word)"
    by simp
  finally have "(word_of_nat (4294967296 - n) :: 32 word) = - word_of_nat n"
    by (simp add: eq_neg_iff_add_eq_0)
  moreover have "(word_of_nat ((4294967296 - n) mod 4294967296) :: 32 word)
      = word_of_nat (4294967296 - n)"
    by (simp add: word_of_nat_eq_iff take_bit_eq_mod)
  ultimately show ?thesis by simp
qed

lemma leading_unsigned_unfold:
  "leading_unsigned t =
     (let ds = takeWhile spec_is_digit (spec_unsigned_part t) in
      if ds = [] then (0, True)
      else if digits_value ds > 4294967295 then (4294967295, True)
      else if t \<noteq> [] \<and> hd t = CHR ''-'' then (- word_of_nat (digits_value ds), False)
      else (word_of_nat (digits_value ds), False))"
  by (simp add: leading_unsigned_def spec_unsigned_part_def Let_def isdigit_eq)

lemma leading_unsigned_spec: "fst (leading_unsigned t) = spec_quantity t"
proof -
  let ?ds = "takeWhile spec_is_digit (spec_unsigned_part t)"
  show ?thesis
  proof (cases "?ds = []")
    case True
    then show ?thesis
      by (simp add: leading_unsigned_unfold spec_quantity_def Let_def)
  next
    case False
    then have "t \<noteq> []"
      by (auto simp: spec_unsigned_part_def)
    with False show ?thesis
      by (simp add: leading_unsigned_unfold spec_quantity_def Let_def leading_digits_spec
          minus_word_of_nat not_less)
  qed
qed

lemma spec_quantity_Nil: "spec_quantity [] = 0"
  by (simp add: spec_quantity_def spec_unsigned_part_def)

lemma amount_of_drop:
  "(case drop k ts of [] \<Rightarrow> 0 | t # r \<Rightarrow> fst (leading_unsigned t)) =
     spec_quantity (spec_token ts (Suc k))"
  using token_of_drop [of k ts]
  by (cases "drop k ts") (auto simp: spec_quantity_Nil leading_unsigned_spec)

subsection \<open>The decoder yields tokens 2, 4 and 6\<close>

lemma parse_request_spec_decode: "parse_request request = spec_decode request"
proof -
  let ?is0 = "\<lparr>rest = replace (CHR ''='') (CHR '' '') (replace (CHR ''&'') (CHR '' '') request),
               failed = False\<rparr>"
  let ?ts = "spec_tokens (replace (CHR ''='') (CHR '' '') (replace (CHR ''&'') (CHR '' '') request))"
  have r0: "remaining ?is0 = ?ts"
    by (rule remaining_start)
  have "parse_request request =
      (case drop (Suc 0) ?ts of [] \<Rightarrow> [] | t # r \<Rightarrow> t,
       case drop (Suc (Suc (Suc 0))) ?ts of [] \<Rightarrow> [] | t # r \<Rightarrow> t,
       case drop (Suc (Suc (Suc (Suc (Suc 0))))) ?ts of [] \<Rightarrow> 0 | t # r \<Rightarrow> fst (leading_unsigned t))"
    by (simp add: parse_request_def Let_def split_beta get_string_value get_unsigned_value
        get_string_remaining r0 del: drop_Suc_Cons)
  also have "\<dots> = spec_decode request"
  proof -
    have n: "(2::nat) = Suc (Suc 0)" "(4::nat) = Suc (Suc (Suc (Suc 0)))"
      "(6::nat) = Suc (Suc (Suc (Suc (Suc (Suc 0)))))"
      by simp_all
    show ?thesis
      by (simp only: token_of_drop amount_of_drop spec_decode_def Let_def n)
  qed
  finally show ?thesis .
qed


subsection \<open>Defaults of the decoded fields\<close>

lemma processTrans_zero_returns:
  "\<exists>msg sm'. processTrans tr stock 0 sm = Returned (msg, sm')"
  by (cases "sm stock") (simp_all add: processTrans_def updateBalance_def balanceStatus_def)

lemma spec_token_missing: "length ts < n \<Longrightarrow> spec_token ts n = []"
  by (simp add: spec_token_def)

lemma no_number_zero: "spec_no_number t \<Longrightarrow> spec_quantity t = 0"
  by (simp add: spec_no_number_def spec_quantity_def Let_def)

lemma empty_kind_result:
  "processTrans [] stock q sm =
     Returned (if sm stock = None then ''Stock not found'' else ''Invalid request'', sm)"
  by (simp add: processTrans_def)

text \<open>
  Claim C7, amended. Provided that the percent-decoding of the request succeeds (it is
  \<open>url_decode raw = Inr request\<close>), the decoder yields tokens 2 and 4 of the decoded
  request (split at white space after \<^verbatim>\<open>&\<close> and \<^verbatim>\<open>=\<close> have become spaces) as kind
  and name, empty when missing, and reads the quantity from the start of token 6 as an
  optional sign followed by decimal digits: no digit, or no token 6, gives 0; a number
  above 4294967295 gives 4294967295; a minus sign gives \<open>2 ^ 32\<close> minus the number;
  characters after the digits are ignored. Decoding the fields never raises. Whenever
  the quantity is 0 the handler writes a response. When the kind is missing the response
  is \<^verbatim>\<open>Stock not found\<close>, or \<^verbatim>\<open>Invalid request\<close> if a stock with the empty name exists;
  otherwise the decoded transaction is carried out with the defaulted fields.
\<close>

theorem parse_request_defaults:
  assumes "url_decode raw = Inr request"
    and "ts = spec_tokens (replace (CHR ''='') (CHR '' '') (replace (CHR ''&'') (CHR '' '') request))"
  shows "parse_request request =
           (spec_token ts 2, spec_token ts 4, spec_quantity (spec_token ts 6))
         \<and> (length ts < 2 \<longrightarrow> spec_token ts 2 = [])
         \<and> (length ts < 4 \<longrightarrow> spec_token ts 4 = [])
         \<and> (length ts < 6 \<or> spec_no_number (spec_token ts 6) \<longrightarrow>
              spec_quantity (spec_token ts 6) = 0)
         \<and> (spec_quantity (spec_token ts 6) = 0 \<longrightarrow>
              (\<exists>msg sm'. clientThread raw sm = Returned (sendResponse msg, sm')))
         \<and> (length ts < 2 \<longrightarrow>
              clientThread raw sm =
                Returned (sendResponse (if sm [] = None then ''Stock not found''
                                        else ''Invalid request''), sm))"
proof -
  have parse: "parse_request request =
      (spec_token ts 2, spec_token ts 4, spec_quantity (spec_token ts 6))"
    using assms(2) by (simp add: parse_request_spec_decode spec_decode_def Let_def)
  have amount: "length ts < 6 \<or> spec_no_number (spec_token ts 6) \<longrightarrow>
      spec_quantity (spec_token ts 6) = 0"
    by (auto simp: spec_token_missing spec_quantity_Nil no_number_zero)
  have responds: "spec_quantity (spec_token ts 6) = 0 \<longrightarrow>
      (\<exists>msg sm'. clientThread raw sm = Returned (sendResponse msg, sm'))"
  proof
    assume z: "spec_quantity (spec_token ts 6) = 0"
    obtain msg sm' where
      "processTrans (spec_token ts 2) (spec_token ts 4) 0 sm = Returned (msg, sm')"
      using processTrans_zero_returns by blast
    with z show "\<exists>msg sm'. clientThread raw sm = Returned (sendResponse msg, sm')"
      by (auto simp: clientThread_def assms(1) parse)
  qed
  have nokind: "length ts < 2 \<longrightarrow>
      clientThread raw sm =
        Returned (sendResponse (if sm [] = None then ''Stock not found''
                                else ''Invalid request''), sm)"
    by (simp add: clientThread_def assms(1) parse spec_token_missing empty_kind_result)
  from parse amount responds nokind show ?thesis
    by (simp add: spec_token_missing)
qed

text \<open>A request with one token only; quantities that are not a number, a number with
  trailing characters, a negative number and a number above \<open>2 ^ 32 - 1\<close>.\<close>

lemma tokens_trans:
  "spec_tokens (replace (CHR ''='') (CHR '' '') (replace (CHR ''&'') (CHR '' '') ''/trans'')) = [''/trans'']"
  by (simp add: replace_def spec_tokens.simps isspace_def)

lemma spec_quantity_examples:
  "spec_quantity ''abc'' = 0" "spec_quantity ''12abc'' = 12" "spec_quantity ''-5'' = 4294967291"
  "spec_quantity ''4294967296'' = 4294967295"
  by (simp_all add: spec_quantity_def spec_unsigned_part_def spec_is_digit_def spec_digit_def)

theorem parse_request_defaults_witness:
  "clientThread ''/trans'' Map.empty = Returned (sendResponse ''Stock not found'', Map.empty)
   \<and> parse_request ''/trans'' = ([], [], 0)
   \<and> parse_request ''/trans=sell&stock=X&amount=abc'' = (''sell'', ''X'', 0)
   \<and> parse_request ''/trans=sell&stock=X&amount=12abc'' = (''sell'', ''X'', 12)
   \<and> parse_request ''/trans=sell&stock=X&amount=-5'' = (''sell'', ''X'', 4294967291)
   \<and> parse_request ''/trans=sell&stock=X&amount=4294967296'' = (''sell'', ''X'', 4294967295)"
  using parse_request_defaults [where raw = "''/trans''" and request = "''/trans''"
      and ts = "[''/trans'']" and sm = Map.empty]
    parse_request_defaults [where raw = "''/trans=sell&stock=X&amount=abc''"
      and request = "''/trans=sell&stock=X&amount=abc''"
      and ts = "[''/trans'', ''sell'', ''stock'', ''X'', ''amount'', ''abc'']" and sm = Map.empty]
    parse_request_defaults [where raw = "''/trans=sell&stock=X&amount=12abc''"
      and request = "''/trans=sell&stock=X&amount=12abc''"
      and ts = "[''/trans'', ''sell'', ''stock'', ''X'', ''amount'', ''12abc'']" and sm = Map.empty]
    parse_request_defaults [where raw = "''/trans=sell&stock=X&amount=-5''"
      and request = "''/trans=sell&stock=X&amount=-5''"
      and ts = "[''/trans'', ''sell'', ''stock'', ''X'', ''amount'', ''-5'']" and sm = Map.empty]
    parse_request_defaults [where raw = "''/trans=sell&stock=X&amount=4294967296''"
      and request = "''/trans=sell&stock=X&amount=4294967296''"
      and ts = "[''/trans'', ''sell'', ''stock'', ''X'', ''amount'', ''4294967296'']" and sm = Map.empty]
  by (simp add: tokens_trans spec_token_def spec_quantity_examples spec_quantity_Nil
      replace_def spec_tokens.simps isspace_def)

text \<open>
  Claim C7, as stated, fails in two places. With the name and the quantity missing, the
  request \<^verbatim>\<open>/trans=create\<close> is answered neither \<^verbatim>\<open>Stock not found\<close> nor
  \<^verbatim>\<open>Invalid request\<close>: it creates the stock with the empty name and balance 0. And
  a malformed quantity is not always read as 0: \<^verbatim>\<open>12abc\<close> is read as 12, \<^verbatim>\<open>-5\<close>
  as 4294967291 and \<^verbatim>\<open>4294967296\<close> as 4294967295.
\<close>

lemma to_string_0: "to_string 0 = ''0''"
  by (simp add: to_string_def decimal.simps digit_char_def)

theorem parse_request_counterexample:
  "clientThread ''/trans=create'' Map.empty =
     Returned (sendResponse ''Stock  created with balance = 0'',
               [[] \<mapsto> \<lparr>name = [], balance = 0\<rparr>])
   \<and> ''Stock  created with balance = 0'' \<noteq> ''Stock not found''
   \<and> ''Stock  created with balance = 0'' \<noteq> ''Invalid request''
   \<and> parse_request ''/trans=sell&stock=X&amount=12abc'' = (''sell'', ''X'', 12)
   \<and> parse_request ''/trans=sell&stock=X&amount=-5'' = (''sell'', ''X'', 4294967291)
   \<and> parse_request ''/trans=sell&stock=X&amount=4294967296'' = (''sell'', ''X'', 4294967295)"
  by (simp add: clientThread_def parse_request_def replace_def get_string_def get_unsigned_def
      isspace_def processTrans_def createStock_def subscript_def to_string_0
      leading_unsigned_def isdigit_def digits_value_def digit_val_def)

text \<open>Percent-decoding itself can raise, which is why the amended claim asks for its
  success: \<^verbatim>\<open>std::stoi\<close> throws on a \<^verbatim>\<open>%\<close> that no
  hexadecimal digit follows, and \<^verbatim>\<open>clientThread\<close> does not catch it.\<close>

lemma url_decode_raises: "clientThread ''/trans=status&stock=%zz'' sm = Raised invalid_argument"
  by (simp add: clientThread_def stoi16_def isspace_def isxdigit_def isdigit_def)

end
